theory Spec2Isabelle
  imports Complex_Main "HOL-Library.Log_Nat"
begin

section \<open>Errors and loops\<close>

text \<open>
  The filter engine of \<^verbatim>\<open>ImageFilter\<close> works on nested \<^verbatim>\<open>std::vector\<close>s of
  \<^verbatim>\<open>double\<close>. A call either returns a value or ends in one of three ways:
  \<^item> \<open>InvalidArgument\<close>: the source throws \<^verbatim>\<open>std::invalid_argument\<close>;
  \<^item> \<open>LengthError\<close>: a vector is constructed with a negative \<^verbatim>\<open>int\<close> size, which the
    conversion to \<^verbatim>\<open>size_t\<close> turns into a size beyond \<^verbatim>\<open>max_size()\<close>;
  \<^item> \<open>UndefinedBehaviour\<close>: an unchecked \<^verbatim>\<open>operator[]\<close> outside the vector, or a
    conversion of a non-representable \<^verbatim>\<open>double\<close> to \<^verbatim>\<open>int\<close>. The source throws nothing
    there; C++ leaves the outcome open, and the model stops with this value.
  Running out of memory is not modelled.
\<close>

datatype error = InvalidArgument | LengthError | UndefinedBehaviour

definition ebind :: "error + 'a \<Rightarrow> ('a \<Rightarrow> error + 'b) \<Rightarrow> error + 'b" where
  "ebind m f = (case m of Inl e \<Rightarrow> Inl e | Inr v \<Rightarrow> f v)"

text \<open>A loop body is run on each index in turn and stops at the first failure.\<close>

primrec run_loop :: "('i \<Rightarrow> 's \<Rightarrow> error + 's) \<Rightarrow> 'i list \<Rightarrow> 's \<Rightarrow> error + 's" where
  "run_loop body [] s = Inr s"
| "run_loop body (i # is) s = ebind (body i s) (run_loop body is)"

text \<open>\<^verbatim>\<open>for (int i = lo; i < hi; ++i) body\<close>. The counter stays below \<open>hi\<close>, so its
  increment never leaves the range of \<^verbatim>\<open>int\<close>.\<close>

definition for_range :: "int \<Rightarrow> int \<Rightarrow> (int \<Rightarrow> 's \<Rightarrow> error + 's) \<Rightarrow> 's \<Rightarrow> error + 's" where
  "for_range lo hi body s = run_loop body (map (\<lambda>k. lo + int k) [0..<nat (hi - lo)]) s"

section \<open>Machine integers\<close>

text \<open>
  Indices, sizes and pad amounts have the type \<^verbatim>\<open>int\<close> of the source, 32 bits wide. The
  model keeps them in \<open>int\<close> and writes the width out: \<open>int32\<close> is the range of the type,
  and every arithmetic operation of the source is followed by \<open>wrap32\<close>, the reduction to
  that range in two's complement. A signed operation that leaves the range is undefined
  in C++; the wrapped value is what the usual targets compute. Arguments of type
  \<^verbatim>\<open>int\<close> are taken to lie in \<open>int32\<close>.
\<close>

definition int32 :: "int \<Rightarrow> bool" where
  "int32 x = (- 2147483648 \<le> x \<and> x \<le> 2147483647)"

definition wrap32 :: "int \<Rightarrow> int" where
  "wrap32 x = (x + 2147483648) mod 4294967296 - 2147483648"

definition add32 :: "int \<Rightarrow> int \<Rightarrow> int" where
  "add32 a b = wrap32 (a + b)"

definition sub32 :: "int \<Rightarrow> int \<Rightarrow> int" where
  "sub32 a b = wrap32 (a - b)"

definition mul32 :: "int \<Rightarrow> int \<Rightarrow> int" where
  "mul32 a b = wrap32 (a * b)"

definition neg32 :: "int \<Rightarrow> int" where
  "neg32 a = wrap32 (- a)"

text \<open>Division of \<^verbatim>\<open>int\<close>s truncates towards zero.\<close>

definition div32 :: "int \<Rightarrow> int \<Rightarrow> int" where
  "div32 a b = wrap32 (sgn a * sgn b * (\<bar>a\<bar> div \<bar>b\<bar>))"

text \<open>The conversion of \<^verbatim>\<open>v.size()\<close> to \<^verbatim>\<open>int\<close>.\<close>

definition size32 :: "'a list \<Rightarrow> int" where
  "size32 xs = wrap32 (int (length xs))"

section \<open>Double-precision samples\<close>

text \<open>
  A \<^verbatim>\<open>double\<close> is a finite number, one of the two infinities, or a NaN. The special
  values follow IEEE 754, which is what decides the code's behaviour when it divides by
  zero. The finite doubles are the reals that \<open>round64\<close> leaves as they are; the sign of
  zero is not modelled (a zero divisor counts as \<open>+0\<close>).
\<close>

datatype double = Fin real | PInf | NInf | NaN

text \<open>Rounding to the nearest integer, ties to the even one.\<close>

definition round_even :: "real \<Rightarrow> int" where
  "round_even x =
     (let f = \<lfloor>x\<rfloor>; d = x - of_int f
      in if d < 1 / 2 then f else if 1 / 2 < d then f + 1 else if even f then f else f + 1)"

text \<open>The exponent \<open>e\<close> with \<open>2^e \<le> |x| < 2^(e+1)\<close> of a real other than zero, read
  off the length in bits of the integer part of \<open>|x|\<close>, or of \<open>1 / |x|\<close> below one.\<close>

definition binade :: "real \<Rightarrow> int" where
  "binade x =
     (if 1 \<le> \<bar>x\<bar> then bitlen \<lfloor>\<bar>x\<bar>\<rfloor> - 1 else - bitlen (\<lceil>1 / \<bar>x\<bar>\<rceil> - 1))"

text \<open>The least power of two that is too large for a finite double, \<open>2^1024\<close>.\<close>

definition overflow_threshold :: real where
  "overflow_threshold =
     179769313486231590772930519078902473361797697894230657273430081157732675805500963132708477322407536021120113879871393357658789768814416622492847430639474124377767893424865485276302219601246094119453082952085005768838150682342462881473913110540827237163350510684586298239947245938479716304835356329624224137216"

text \<open>
  The result of an arithmetic operation in binary64: the exact result is rounded to the
  nearest multiple of the unit in the last place of its binade (53 significant bits; the
  binades below \<open>2^-1022\<close> share the unit \<open>2^-1074\<close>), ties to even, and a rounded
  magnitude of \<open>2^1024\<close> or more becomes an infinity.
\<close>

definition round64 :: "real \<Rightarrow> double" where
  "round64 x =
     (if x = 0 then Fin 0
      else
        let e = max (binade x) (- 1022);
            u = 2 powi (e - 52);
            y = of_int (round_even (x / u)) * u
        in if overflow_threshold \<le> \<bar>y\<bar> then (if 0 < x then PInf else NInf) else Fin y)"

instantiation double :: "{zero, plus, minus, uminus, times, inverse, abs, ord}"
begin

definition zero_double :: double where
  "zero_double = Fin 0"

fun uminus_double :: "double \<Rightarrow> double" where
  "uminus_double (Fin a) = Fin (- a)"
| "uminus_double PInf = NInf"
| "uminus_double NInf = PInf"
| "uminus_double NaN = NaN"

fun plus_double :: "double \<Rightarrow> double \<Rightarrow> double" where
  "plus_double (Fin a) (Fin b) = round64 (a + b)"
| "plus_double NaN y = NaN"
| "plus_double x NaN = NaN"
| "plus_double PInf NInf = NaN"
| "plus_double NInf PInf = NaN"
| "plus_double PInf y = PInf"
| "plus_double x PInf = PInf"
| "plus_double NInf y = NInf"
| "plus_double x NInf = NInf"

definition minus_double :: "double \<Rightarrow> double \<Rightarrow> double" where
  "minus_double x y = x + (- y)"

fun times_double :: "double \<Rightarrow> double \<Rightarrow> double" where
  "times_double (Fin a) (Fin b) = round64 (a * b)"
| "times_double NaN y = NaN"
| "times_double x NaN = NaN"
| "times_double PInf (Fin b) = (if b = 0 then NaN else if 0 < b then PInf else NInf)"
| "times_double NInf (Fin b) = (if b = 0 then NaN else if 0 < b then NInf else PInf)"
| "times_double (Fin a) PInf = (if a = 0 then NaN else if 0 < a then PInf else NInf)"
| "times_double (Fin a) NInf = (if a = 0 then NaN else if 0 < a then NInf else PInf)"
| "times_double PInf PInf = PInf"
| "times_double PInf NInf = NInf"
| "times_double NInf PInf = NInf"
| "times_double NInf NInf = PInf"

fun divide_double :: "double \<Rightarrow> double \<Rightarrow> double" where
  "divide_double (Fin a) (Fin b) =
     (if b \<noteq> 0 then round64 (a / b)
      else if a = 0 then NaN else if 0 < a then PInf else NInf)"
| "divide_double NaN y = NaN"
| "divide_double x NaN = NaN"
| "divide_double (Fin a) PInf = Fin 0"
| "divide_double (Fin a) NInf = Fin 0"
| "divide_double PInf (Fin b) = (if 0 \<le> b then PInf else NInf)"
| "divide_double NInf (Fin b) = (if 0 \<le> b then NInf else PInf)"
| "divide_double PInf y = NaN"
| "divide_double NInf y = NaN"

definition inverse_double :: "double \<Rightarrow> double" where
  "inverse_double x = divide (Fin 1) x"

fun abs_double :: "double \<Rightarrow> double" where
  "abs_double (Fin a) = Fin \<bar>a\<bar>"
| "abs_double PInf = PInf"
| "abs_double NInf = PInf"
| "abs_double NaN = NaN"

fun less_double :: "double \<Rightarrow> double \<Rightarrow> bool" where
  "less_double (Fin a) (Fin b) = (a < b)"
| "less_double NaN y = False"
| "less_double x NaN = False"
| "less_double x NInf = False"
| "less_double PInf y = False"
| "less_double NInf y = True"
| "less_double x PInf = True"

fun less_eq_double :: "double \<Rightarrow> double \<Rightarrow> bool" where
  "less_eq_double (Fin a) (Fin b) = (a \<le> b)"
| "less_eq_double NaN y = False"
| "less_eq_double x NaN = False"
| "less_eq_double NInf y = True"
| "less_eq_double x PInf = True"
| "less_eq_double x NInf = False"
| "less_eq_double PInf y = False"

instance ..

end


text \<open>\<^verbatim>\<open>std::exp\<close>, taken to round correctly.\<close>

fun dexp :: "double \<Rightarrow> double" where
  "dexp (Fin a) = round64 (exp a)"
| "dexp PInf = PInf"
| "dexp NInf = Fin 0"
| "dexp NaN = NaN"

text \<open>\<^verbatim>\<open>static_cast<int>(x)\<close> truncates towards zero; the conversion of a value that
  no \<^verbatim>\<open>int\<close> holds is undefined.\<close>

fun double_to_int :: "double \<Rightarrow> error + int" where
  "double_to_int (Fin a) =
     (let t = (if 0 \<le> a then \<lfloor>a\<rfloor> else \<lceil>a\<rceil>)
      in if int32 t then Inr t else Inl UndefinedBehaviour)"
| "double_to_int x = Inl UndefinedBehaviour"

text \<open>The conversion of an \<^verbatim>\<open>int\<close> to \<^verbatim>\<open>double\<close>, which is exact.\<close>

definition int_to_double :: "int \<Rightarrow> double" where
  "int_to_double x = Fin (of_int x)"

section \<open>Matrices\<close>

type_synonym 'a Mat2D = "'a list list"
type_synonym 'a Mat3D = "'a list list list"

text \<open>\<^verbatim>\<open>m[r][c]\<close> as a read and as a write, both unchecked in the source. A negative
  \<^verbatim>\<open>int\<close> index becomes a \<^verbatim>\<open>size_t\<close> beyond every vector.\<close>

definition at2D :: "'a Mat2D \<Rightarrow> int \<Rightarrow> int \<Rightarrow> error + 'a" where
  "at2D m r c =
     (if 0 \<le> r \<and> r < int (length m) \<and> 0 \<le> c \<and> c < int (length (m ! nat r))
      then Inr (m ! nat r ! nat c) else Inl UndefinedBehaviour)"

definition put2D :: "'a Mat2D \<Rightarrow> int \<Rightarrow> int \<Rightarrow> 'a \<Rightarrow> error + 'a Mat2D" where
  "put2D m r c v =
     (if 0 \<le> r \<and> r < int (length m) \<and> 0 \<le> c \<and> c < int (length (m ! nat r))
      then Inr (m[nat r := (m ! nat r)[nat c := v]]) else Inl UndefinedBehaviour)"

definition at1D :: "'a list \<Rightarrow> int \<Rightarrow> error + 'a" where
  "at1D xs i = (if 0 \<le> i \<and> i < int (length xs) then Inr (xs ! nat i) else Inl UndefinedBehaviour)"

definition put1D :: "'a list \<Rightarrow> int \<Rightarrow> 'a \<Rightarrow> error + 'a list" where
  "put1D xs i v =
     (if 0 \<le> i \<and> i < int (length xs) then Inr (xs[nat i := v]) else Inl UndefinedBehaviour)"

definition at3D :: "'a Mat3D \<Rightarrow> int \<Rightarrow> int \<Rightarrow> int \<Rightarrow> error + 'a" where
  "at3D m z r c =
     (if 0 \<le> z \<and> z < int (length m) then at2D (m ! nat z) r c else Inl UndefinedBehaviour)"

definition put3D :: "'a Mat3D \<Rightarrow> int \<Rightarrow> int \<Rightarrow> int \<Rightarrow> 'a \<Rightarrow> error + 'a Mat3D" where
  "put3D m z r c v =
     (if 0 \<le> z \<and> z < int (length m)
      then ebind (put2D (m ! nat z) r c v) (\<lambda>s. Inr (m[nat z := s]))
      else Inl UndefinedBehaviour)"

text \<open>A loop that fills a fresh vector slot by slot, in index order.\<close>

primrec map_err :: "('a \<Rightarrow> error + 'b) \<Rightarrow> 'a list \<Rightarrow> error + 'b list" where
  "map_err f [] = Inr []"
| "map_err f (x # xs) = ebind (f x) (\<lambda>y. ebind (map_err f xs) (\<lambda>ys. Inr (y # ys)))"

section \<open>Border index resolver\<close>

text \<open>\<^verbatim>\<open>std::clamp(v, lo, hi)\<close>\<close>

definition clamp :: "int \<Rightarrow> int \<Rightarrow> int \<Rightarrow> int" where
  "clamp v lo hi = (if v < lo then lo else if hi < v then hi else v)"

text \<open>Border types are the integer codes of the source:
  0 CONSTANT, 1 REPLICATE, 2 REFLECT, 3 REFLECT\_101.\<close>

definition getMirrorIndex :: "int \<Rightarrow> int \<Rightarrow> int \<Rightarrow> int" where
  "getMirrorIndex idx sz borderType =
     (if sz \<le> 0 then 0
      else if borderType = 1 then clamp idx 0 (sub32 sz 1)
      else if borderType = 2 then
        (if idx < 0 then sub32 (neg32 idx) 1
         else if idx \<ge> sz then sub32 (sub32 (mul32 2 sz) idx) 1
         else idx)
      else if borderType = 3 then
        (if idx < 0 then neg32 idx
         else if idx \<ge> sz then sub32 (sub32 (mul32 2 sz) idx) 2
         else idx)
      else 0)"

definition getBorderValue ::
  "'a Mat2D \<Rightarrow> int \<Rightarrow> int \<Rightarrow> int \<Rightarrow> int \<Rightarrow> int \<Rightarrow> 'a \<Rightarrow> error + 'a" where
  "getBorderValue input row col rows cols borderType cval =
     (if row \<ge> 0 \<and> row < rows \<and> col \<ge> 0 \<and> col < cols then at2D input row col
      else if borderType = 0 then Inr cval
      else
        let r = getMirrorIndex row rows borderType;
            c = getMirrorIndex col cols borderType
        in at2D input r c)"

section \<open>Padding in two dimensions\<close>

text \<open>The three loop nests of \<^verbatim>\<open>pad2D\<close>, in the order of the source: the copy of the
  input into the centre, the top rows together with their mirror-positioned bottom rows,
  and the left columns together with their mirror-positioned right columns.\<close>

definition pad2D_centre :: "'a Mat2D \<Rightarrow> int \<Rightarrow> int \<Rightarrow> int \<Rightarrow> int \<Rightarrow> 'a Mat2D \<Rightarrow> error + 'a Mat2D" where
  "pad2D_centre input rows cols pad_row pad_col result =
     for_range 0 rows (\<lambda>i. for_range 0 cols (\<lambda>j res.
       ebind (at2D input i j) (\<lambda>v. put2D res (add32 pad_row i) (add32 pad_col j) v))) result"

definition pad2D_top_bottom ::
  "'a Mat2D \<Rightarrow> int \<Rightarrow> int \<Rightarrow> int \<Rightarrow> int \<Rightarrow> int \<Rightarrow> int \<Rightarrow> int \<Rightarrow> 'a \<Rightarrow> 'a Mat2D
     \<Rightarrow> error + 'a Mat2D" where
  "pad2D_top_bottom input rows cols pad_row pad_col new_rows new_cols borderType cval result =
     for_range 0 pad_row (\<lambda>i. for_range 0 new_cols (\<lambda>j res.
       let row_idx = i;
           mirror_row = sub32 (sub32 pad_row i) 1;
           col_idx = sub32 j pad_col;
           original_col = getMirrorIndex col_idx cols borderType
       in ebind (if col_idx \<ge> 0 \<and> col_idx < cols
                 then getBorderValue input (sub32 mirror_row pad_row) original_col
                        rows cols borderType cval
                 else getBorderValue input (sub32 mirror_row pad_row) original_col
                        rows cols borderType cval)
            (\<lambda>val. ebind (put2D res row_idx j val)
               (\<lambda>res'. put2D res' (sub32 (sub32 new_rows 1) i) j val)))) result"

definition pad2D_left_right ::
  "'a Mat2D \<Rightarrow> int \<Rightarrow> int \<Rightarrow> int \<Rightarrow> int \<Rightarrow> int \<Rightarrow> int \<Rightarrow> int \<Rightarrow> 'a \<Rightarrow> 'a Mat2D
     \<Rightarrow> error + 'a Mat2D" where
  "pad2D_left_right input rows cols pad_row pad_col new_rows new_cols borderType cval result =
     for_range pad_row (sub32 new_rows pad_row) (\<lambda>i. for_range 0 pad_col (\<lambda>j res.
       let col_idx = j;
           mirror_col = sub32 (sub32 pad_col j) 1;
           original_row = sub32 i pad_row
       in ebind (getBorderValue input original_row (sub32 mirror_col pad_col)
                   rows cols borderType cval)
            (\<lambda>val. ebind (put2D res i col_idx val)
               (\<lambda>res'. put2D res' i (sub32 (sub32 new_cols 1) j) val)))) result"

definition pad2D :: "'a::zero Mat2D \<Rightarrow> int \<Rightarrow> int \<Rightarrow> int \<Rightarrow> 'a \<Rightarrow> error + 'a Mat2D" where
  "pad2D input pad_row pad_col borderType cval =
     (if input = [] then Inr []
      else
        let rows = size32 input;
            cols = size32 (input ! 0);
            new_rows = add32 rows (mul32 2 pad_row);
            new_cols = add32 cols (mul32 2 pad_col)
        in if new_rows < 0 \<or> new_cols < 0 then Inl LengthError
           else
             ebind (pad2D_centre input rows cols pad_row pad_col
                      (replicate (nat new_rows) (replicate (nat new_cols) 0)))
            (\<lambda>result. ebind (pad2D_top_bottom input rows cols pad_row pad_col
                                new_rows new_cols borderType cval result)
            (pad2D_left_right input rows cols pad_row pad_col
               new_rows new_cols borderType cval)))"

section \<open>Padding in three dimensions\<close>

text \<open>One depth slice of the border: the two inner loops of \<^verbatim>\<open>pad3D\<close> write every
  cell of slice \<open>dst_z\<close>, with the fill value in CONSTANT mode and with the cell of the
  row- and column-padded source slice \<open>src_z\<close> otherwise.\<close>

definition pad3D_slice ::
  "'a Mat3D \<Rightarrow> int \<Rightarrow> int \<Rightarrow> int \<Rightarrow> int \<Rightarrow> int \<Rightarrow> 'a \<Rightarrow> 'a Mat3D \<Rightarrow> error + 'a Mat3D" where
  "pad3D_slice sliced_padded dst_z src_z new_rows new_cols borderType cval result =
     for_range 0 new_rows (\<lambda>i. for_range 0 new_cols (\<lambda>j res.
       if borderType = 0 then put3D res dst_z i j cval
       else ebind (at3D sliced_padded src_z i j) (\<lambda>v. put3D res dst_z i j v))) result"

definition pad3D :: "'a::zero Mat3D \<Rightarrow> int list \<Rightarrow> int \<Rightarrow> 'a \<Rightarrow> error + 'a Mat3D" where
  "pad3D input pads borderType cval =
     (if input = [] then Inr []
      else if length pads < 2 then Inl InvalidArgument
      else
        let pad_row = pads ! 0;
            pad_col = pads ! 1;
            pad_depth = (if length pads > 2 then pads ! 2 else 0);
            depth = size32 input
        in if depth < 0 then Inl LengthError
           else
             ebind (map_err (\<lambda>slice. pad2D slice pad_row pad_col borderType cval)
                      (take (nat depth) input))
          (\<lambda>sliced_padded.
            if sliced_padded = [] \<or> sliced_padded ! 0 = [] then Inl UndefinedBehaviour
            else
              let new_depth = add32 depth (mul32 2 pad_depth);
                  new_rows = size32 (sliced_padded ! 0);
                  new_cols = size32 (sliced_padded ! 0 ! 0)
              in if new_depth < 0 \<or> new_rows < 0 \<or> new_cols < 0 then Inl LengthError
                 else
                   ebind (for_range 0 depth (\<lambda>z res.
                            ebind (at1D sliced_padded z) (put1D res (add32 pad_depth z)))
                          (replicate (nat new_depth)
                             (replicate (nat new_rows) (replicate (nat new_cols) 0))))
                  (\<lambda>result. ebind (for_range 0 pad_depth (\<lambda>z res.
                            let src_z = getMirrorIndex (sub32 z pad_depth) depth borderType;
                                src_z = clamp src_z 0 (sub32 depth 1)
                            in pad3D_slice sliced_padded z src_z new_rows new_cols
                                 borderType cval res) result)
                  (for_range 0 pad_depth (\<lambda>z res.
                            let dst_z = add32 (add32 pad_depth depth) z;
                                src_z = getMirrorIndex (add32 depth z) depth borderType;
                                src_z = clamp src_z 0 (sub32 depth 1)
                            in pad3D_slice sliced_padded dst_z src_z new_rows new_cols
                                 borderType cval res)))))"

section \<open>Correlation along one axis\<close>

text \<open>\<^verbatim>\<open>isClose\<close>; its declaration gives \<open>eps\<close> the default \<^verbatim>\<open>1e-6\<close>, the double
  nearest to one millionth, which is what \<^verbatim>\<open>correlate1d\<close> calls it with.\<close>

definition isClose :: "double \<Rightarrow> double \<Rightarrow> double \<Rightarrow> bool" where
  "isClose a b eps = (\<bar>a - b\<bar> < eps)"

definition default_eps :: double where
  "default_eps = round64 (1 / 1000000)"

text \<open>The loop that decides the two symmetry flags of the kernel,
  \<^verbatim>\<open>for (int i = 1; i <= k_half; ++i)\<close>; \<open>k_half\<close> is half of an \<^verbatim>\<open>int\<close>, so the
  bound \<open>k_half + 1\<close> is in range.\<close>

definition kernel_symmetry :: "double list \<Rightarrow> int \<Rightarrow> error + bool \<times> bool" where
  "kernel_symmetry weights k_half =
     for_range 1 (k_half + 1) (\<lambda>i (symmetric, anti_symmetric).
       ebind (at1D weights (add32 k_half i)) (\<lambda>wr.
       ebind (at1D weights (sub32 k_half i)) (\<lambda>wl.
         Inr (if \<not> isClose wr wl default_eps then False else symmetric,
              if \<not> isClose wr (- wl) default_eps then False else anti_symmetric))))
       (True, True)"

text \<open>The value of one output sample. The source repeats this code once per axis; the
  copies differ only in the index expression that reads the padded volume along the axis,
  which is the parameter \<open>rd\<close> here, and \<open>center\<close> is \<^verbatim>\<open>center_y\<close>, \<^verbatim>\<open>center_x\<close>
  or \<^verbatim>\<open>center_z\<close>.\<close>

definition tap_sum ::
  "bool \<Rightarrow> bool \<Rightarrow> double list \<Rightarrow> int \<Rightarrow> int \<Rightarrow> (int \<Rightarrow> error + double) \<Rightarrow> int
     \<Rightarrow> error + double" where
  "tap_sum symmetric anti_symmetric weights ksize k_half rd center =
     (if symmetric then
        ebind (rd center) (\<lambda>p. ebind (at1D weights k_half) (\<lambda>w.
          for_range 1 (k_half + 1) (\<lambda>i sum.
            ebind (rd (sub32 center i)) (\<lambda>a. ebind (rd (add32 center i)) (\<lambda>b.
            ebind (at1D weights (add32 k_half i)) (\<lambda>w. Inr (sum + (a + b) * w)))))
          (p * w)))
      else if anti_symmetric then
        ebind (rd center) (\<lambda>p. ebind (at1D weights k_half) (\<lambda>w.
          for_range 1 (k_half + 1) (\<lambda>i sum.
            ebind (rd (sub32 center i)) (\<lambda>a. ebind (rd (add32 center i)) (\<lambda>b.
            ebind (at1D weights (add32 k_half i)) (\<lambda>w. Inr (sum + (a - b) * w)))))
          (p * w)))
      else
        for_range 0 ksize (\<lambda>i sum.
          ebind (rd (add32 (sub32 center k_half) i)) (\<lambda>a.
          ebind (at1D weights i) (\<lambda>w. Inr (sum + a * w))))
        0)"

definition correlate1d_sweep ::
  "bool \<Rightarrow> bool \<Rightarrow> double list \<Rightarrow> int \<Rightarrow> int list \<Rightarrow> double Mat3D
     \<Rightarrow> int \<Rightarrow> int \<Rightarrow> int \<Rightarrow> double Mat3D \<Rightarrow> error + double Mat3D" where
  "correlate1d_sweep symmetric anti_symmetric weights axis pads padded depth rows cols output =
     (let ksize = size32 weights; k_half = div32 ksize 2 in
      if axis = 0 then
        for_range 0 depth (\<lambda>z. for_range 0 cols (\<lambda>c. for_range 0 rows (\<lambda>r out.
          let center_y = add32 k_half r in
          ebind (tap_sum symmetric anti_symmetric weights ksize k_half
                   (\<lambda>y. at3D padded (add32 z (pads ! 2)) y (add32 c (pads ! 1))) center_y)
            (put3D out z r c)))) output
      else if axis = 1 then
        for_range 0 depth (\<lambda>z. for_range 0 rows (\<lambda>r. for_range 0 cols (\<lambda>c out.
          let center_x = add32 k_half c in
          ebind (tap_sum symmetric anti_symmetric weights ksize k_half
                   (\<lambda>x. at3D padded (add32 z (pads ! 2)) (add32 r (pads ! 0)) x) center_x)
            (put3D out z r c)))) output
      else if axis = 2 then
        for_range 0 rows (\<lambda>r. for_range 0 cols (\<lambda>c. for_range 0 depth (\<lambda>z out.
          let center_z = add32 k_half z in
          ebind (tap_sum symmetric anti_symmetric weights ksize k_half
                   (\<lambda>d. at3D padded d (add32 r (pads ! 0)) (add32 c (pads ! 1))) center_z)
            (put3D out z r c)))) output
      else Inr output)"

text \<open>\<^verbatim>\<open>correlate1d\<close> returns through its reference parameter \<open>output\<close>; the model takes
  the value \<open>output\<close> had before the call and returns the one it has after. The
  parameter \<open>paths\<close> is the identity in \<open>correlate1d\<close>; it lets the reference below force
  the general path on the same code.\<close>

definition correlate1d_with ::
  "(bool \<times> bool \<Rightarrow> bool \<times> bool) \<Rightarrow> double Mat3D \<Rightarrow> double list \<Rightarrow> int \<Rightarrow> double Mat3D
     \<Rightarrow> int \<Rightarrow> double \<Rightarrow> error + double Mat3D" where
  "correlate1d_with paths input weights axis output borderType cval =
     (if input = [] \<or> weights = [] then Inr output
      else if axis < 0 \<or> axis > 2 then Inl InvalidArgument
      else
        let ksize = size32 weights;
            k_half = div32 ksize 2;
            pads = [0, 0, 0][nat axis := k_half]
        in ebind (pad3D input pads borderType cval) (\<lambda>padded.
             let depth = size32 input;
                 rows = size32 (input ! 0)
             in if input ! 0 = [] then Inl UndefinedBehaviour
                else
                  let cols = size32 (input ! 0 ! 0) in
                  if depth < 0 \<or> rows < 0 \<or> cols < 0 then Inl LengthError
                  else
                    let output = replicate (nat depth) (replicate (nat rows) (replicate (nat cols) 0))
                    in ebind (kernel_symmetry weights k_half) (\<lambda>flags.
                         correlate1d_sweep (fst (paths flags)) (snd (paths flags)) weights axis
                           pads padded depth rows cols output)))"

definition correlate1d ::
  "double Mat3D \<Rightarrow> double list \<Rightarrow> int \<Rightarrow> double Mat3D \<Rightarrow> int \<Rightarrow> double
     \<Rightarrow> error + double Mat3D" where
  "correlate1d = correlate1d_with (\<lambda>flags. flags)"



section \<open>Gaussian and Sobel pipelines\<close>

definition gaussian_kernel1d :: "double \<Rightarrow> int \<Rightarrow> error + double list" where
  "gaussian_kernel1d sigma radius =
     (let sigma2 = sigma * sigma;
          n = add32 (mul32 2 radius) 1 in
      if n < 0 then Inl LengthError
      else
        ebind (for_range 0 n (\<lambda>i (kernel, sum).
                 let x = sub32 i radius;
                     v = dexp (Fin (- 0.5) / sigma2 * int_to_double x * int_to_double x)
                 in ebind (put1D kernel i v) (\<lambda>kernel'. Inr (kernel', sum + v)))
               (replicate (nat n) 0, 0))
          (\<lambda>(kernel, sum). Inr (map (\<lambda>val. val / sum) kernel)))"

definition gaussian_filter1d ::
  "double Mat3D \<Rightarrow> double \<Rightarrow> int \<Rightarrow> double Mat3D \<Rightarrow> int \<Rightarrow> double
     \<Rightarrow> error + double Mat3D" where
  "gaussian_filter1d input sigma axis output borderType cval =
     ebind (double_to_int (Fin 4 * sigma + Fin 0.5)) (\<lambda>radius.
     ebind (gaussian_kernel1d sigma radius) (\<lambda>kernel.
       correlate1d input (rev kernel) axis output borderType cval))"

definition gaussian_filter ::
  "double Mat3D \<Rightarrow> double \<Rightarrow> int \<Rightarrow> double \<Rightarrow> error + double Mat3D" where
  "gaussian_filter input sigma borderType cval =
     (if input = [] then Inr []
      else for_range 0 3 (\<lambda>axis result.
             gaussian_filter1d result sigma axis [] borderType cval) input)"

definition sobel :: "double Mat3D \<Rightarrow> int \<Rightarrow> int \<Rightarrow> double \<Rightarrow> error + double Mat3D" where
  "sobel input axis borderType cval =
     (if input = [] then Inr []
      else if axis < 0 \<or> axis > 2 then Inl InvalidArgument
      else
        let grad_kernel = [Fin (- 1), Fin 0, Fin 1] in
        ebind (correlate1d input grad_kernel axis [] borderType cval) (\<lambda>result.
          let smooth_kernel = [Fin 1, Fin 2, Fin 1] in
          for_range 0 3 (\<lambda>ax result.
            if ax \<noteq> axis then correlate1d result smooth_kernel ax [] borderType cval
            else Inr result) result))"

section \<open>Shapes\<close>

text \<open>A matrix of \<open>nr\<close> rows of \<open>nc\<close> samples each, and a volume of \<open>nd\<close> such slices.\<close>

definition shape2D :: "nat \<Rightarrow> nat \<Rightarrow> 'a Mat2D \<Rightarrow> bool" where
  "shape2D nr nc m = (length m = nr \<and> (\<forall>row\<in>set m. length row = nc))"



text \<open>
  Fixed-point values: the finite doubles that are an integer multiple \<open>n * 2^e\<close> of one
  power of two, with \<open>|n| \<le> m\<close>; \<open>mantissa\<close> is the multiplier \<open>n\<close>.
\<close>

definition fixed_point :: "int \<Rightarrow> int \<Rightarrow> double \<Rightarrow> bool" where
  "fixed_point e m x =
     (case x of
        Fin r \<Rightarrow> of_int \<lfloor>r / 2 powi e\<rfloor> = r / 2 powi e \<and> \<bar>r / 2 powi e\<bar> \<le> of_int m
      | _ \<Rightarrow> False)"




section \<open>Evaluation lemmas\<close>

lemma ebind_simps:
  "ebind (Inl e) f = Inl e"
  "ebind (Inr v) f = f v"
  by (simp_all add: ebind_def)


section \<open>Loops: running, success and invariants\<close>











section \<open>Arithmetic of machine integers\<close>

lemma wrap32_id: "int32 x \<Longrightarrow> wrap32 x = x"
  by (simp add: int32_def wrap32_def)

lemma int32_wrap32: "int32 (wrap32 x)"
proof -
  have "0 \<le> (x + 2147483648) mod 4294967296" "(x + 2147483648) mod 4294967296 < 4294967296"
    by simp_all
  then show ?thesis unfolding int32_def wrap32_def by linarith
qed

lemma wrap32_minus_left: "wrap32 (wrap32 a - b) = wrap32 (a - b)"
proof -
  have "(wrap32 a - b + 2147483648) mod 4294967296
      = ((a + 2147483648) mod 4294967296 - b) mod 4294967296"
    by (simp add: wrap32_def)
  also have "\<dots> = (a + 2147483648 - b) mod 4294967296"
    by (rule mod_diff_left_eq)
  finally show ?thesis by (simp add: wrap32_def algebra_simps)
qed


lemma sub32_id: "int32 (a - b) \<Longrightarrow> sub32 a b = a - b"
  by (simp add: sub32_def wrap32_id)


lemma neg32_id: "int32 (- a) \<Longrightarrow> neg32 a = - a"
  by (simp add: neg32_def wrap32_id)


text \<open>The two bounces of the resolver give the result that unbounded arithmetic gives
  whenever that result is an \<^verbatim>\<open>int\<close>, although \<open>2 * sz\<close> or \<open>- idx\<close> alone may
  leave the range.\<close>

lemma reflect_far_edge:
  assumes "int32 (2 * sz - idx - d)"
  shows "sub32 (sub32 (mul32 2 sz) idx) d = 2 * sz - idx - d"
proof -
  have "sub32 (sub32 (mul32 2 sz) idx) d = wrap32 (2 * sz - idx - d)"
    by (simp add: sub32_def mul32_def wrap32_minus_left)
  then show ?thesis using assms by (simp add: wrap32_id)
qed

lemma reflect_near_edge:
  assumes "int32 (- idx - 1)"
  shows "sub32 (neg32 idx) 1 = - idx - 1"
proof -
  have "sub32 (neg32 idx) 1 = wrap32 (- idx - 1)"
    by (simp add: sub32_def neg32_def wrap32_minus_left)
  then show ?thesis using assms by (simp add: wrap32_id)
qed

section \<open>The border index resolver\<close>

text \<open>
  C6, as stated, fails at one index: \<open>idx\<close> is an \<^verbatim>\<open>int\<close>, and the negation of the
  least \<^verbatim>\<open>int\<close> is not an \<^verbatim>\<open>int\<close>. Under REFLECT\_101 the resolver returns
  \<open>-2147483648\<close> for \<open>idx = -2147483648\<close>, not \<open>- idx = 2147483648\<close>.
\<close>

theorem getMirrorIndex_least_int:
  "int32 (- 2147483648) \<and> (0::int) < 1 \<and> (- 2147483648::int) < 0
     \<and> getMirrorIndex (- 2147483648) 1 3 = - 2147483648
     \<and> getMirrorIndex (- 2147483648) 1 3 \<noteq> - (- 2147483648)"
  by (simp add: getMirrorIndex_def neg32_def wrap32_def int32_def)

text \<open>
  C6, amended. For every size above zero and every index of type \<^verbatim>\<open>int\<close>, REPLICATE
  resolves the index to \<open>max 0 (min idx (size - 1))\<close>; REFLECT sends a negative index
  to \<open>- idx - 1\<close> and an index from \<open>size\<close> on to \<open>2 * size - idx - 1\<close>; REFLECT\_101
  sends a negative index other than the least \<^verbatim>\<open>int\<close> to \<open>- idx\<close> and an index
  from \<open>size\<close> on to \<open>2 * size - idx - 2\<close>. Padding the row \<open>[1, 2, 3, 4]\<close> by one
  column puts 1 into the left border cell under REFLECT and 2 under REFLECT\_101 (the
  cell at column 0 of the results).
\<close>

theorem getMirrorIndex_formulas:
  "int32 idx \<Longrightarrow> int32 sz \<Longrightarrow> 0 < sz \<Longrightarrow>
     getMirrorIndex idx sz 1 = max 0 (min idx (sz - 1))
     \<and> (idx < 0 \<longrightarrow> getMirrorIndex idx sz 2 = - idx - 1)
     \<and> (sz \<le> idx \<longrightarrow> getMirrorIndex idx sz 2 = 2 * sz - idx - 1)
     \<and> (idx < 0 \<longrightarrow> idx \<noteq> - 2147483648 \<longrightarrow> getMirrorIndex idx sz 3 = - idx)
     \<and> (sz \<le> idx \<longrightarrow> getMirrorIndex idx sz 3 = 2 * sz - idx - 2)
     \<and> pad2D [[Fin 1, Fin 2, Fin 3, Fin 4]] 0 1 2 (Fin 0)
         = Inr [[Fin 1, Fin 1, Fin 2, Fin 3, Fin 4, Fin 1]]
     \<and> pad2D [[Fin 1, Fin 2, Fin 3, Fin 4]] 0 1 3 (Fin 0)
         = Inr [[Fin 2, Fin 1, Fin 2, Fin 3, Fin 4, Fin 2]]"
proof -
  assume idx: "int32 idx" and sz: "int32 sz" and pos: "0 < sz"
  have edge: "sub32 sz 1 = sz - 1"
    using sz pos by (intro sub32_id) (simp add: int32_def)
  have replicate: "getMirrorIndex idx sz 1 = max 0 (min idx (sz - 1))"
    using pos by (auto simp: getMirrorIndex_def clamp_def edge)
  have result: "int32 (2 * sz - idx - d)" if "sz \<le> idx" "0 < d" "d \<le> 2" for d
    using idx sz pos that unfolding int32_def by linarith
  have near: "idx < 0 \<longrightarrow> getMirrorIndex idx sz 2 = - idx - 1"
  proof
    assume "idx < 0"
    then have "int32 (- idx - 1)" using idx unfolding int32_def by linarith
    then show "getMirrorIndex idx sz 2 = - idx - 1"
      using pos \<open>idx < 0\<close> by (simp add: getMirrorIndex_def reflect_near_edge)
  qed
  have far: "sz \<le> idx \<longrightarrow> getMirrorIndex idx sz 2 = 2 * sz - idx - 1"
    using pos reflect_far_edge [OF result [of 1]] by (simp add: getMirrorIndex_def)
  have near101: "idx < 0 \<longrightarrow> idx \<noteq> - 2147483648 \<longrightarrow> getMirrorIndex idx sz 3 = - idx"
  proof (intro impI)
    assume "idx < 0" "idx \<noteq> - 2147483648"
    then have "int32 (- idx)" using idx by (simp add: int32_def)
    then show "getMirrorIndex idx sz 3 = - idx"
      using pos \<open>idx < 0\<close> by (simp add: getMirrorIndex_def neg32_id)
  qed
  have far101: "sz \<le> idx \<longrightarrow> getMirrorIndex idx sz 3 = 2 * sz - idx - 2"
    using pos reflect_far_edge [OF result [of 2]] by (simp add: getMirrorIndex_def)
  have reflect: "pad2D [[Fin 1, Fin 2, Fin 3, Fin 4]] 0 1 2 (Fin 0)
      = Inr [[Fin 1, Fin 1, Fin 2, Fin 3, Fin 4, Fin 1]]"
    by code_simp
  have reflect101: "pad2D [[Fin 1, Fin 2, Fin 3, Fin 4]] 0 1 3 (Fin 0)
      = Inr [[Fin 2, Fin 1, Fin 2, Fin 3, Fin 4, Fin 2]]"
    by code_simp
  from replicate near far near101 far101 reflect reflect101 show ?thesis by simp
qed

theorem getMirrorIndex_formulas_witness:
  "int32 (- 1) \<and> int32 5 \<and> int32 4 \<and> (0::int) < 4
     \<and> getMirrorIndex (- 1) 4 1 = 0 \<and> getMirrorIndex 5 4 1 = 3
     \<and> getMirrorIndex (- 1) 4 2 = 0 \<and> getMirrorIndex 5 4 2 = 2
     \<and> getMirrorIndex (- 1) 4 3 = 1 \<and> getMirrorIndex 5 4 3 = 1"
  using getMirrorIndex_formulas [of "- 1" 4] getMirrorIndex_formulas [of 5 4]
  by (simp add: int32_def)

text \<open>
  C7, as stated, fails: under REFLECT\_101 the index \<open>- size\<close>, whose distance from the
  range is \<open>size\<close>, resolves to \<open>size\<close>, which is outside \<open>[0, size - 1]\<close>.
\<close>

theorem getMirrorIndex_range_counterexample:
  "(0::int) < 3 \<and> - 3 \<le> (- 3::int) \<and> (- 3::int) \<le> 2 * 3 - 1
     \<and> \<not> (0 \<le> getMirrorIndex (- 3) 3 3 \<and> getMirrorIndex (- 3) 3 3 \<le> 3 - 1)"
  by (simp add: getMirrorIndex_def neg32_def wrap32_def)

text \<open>
  C7, amended. For every size above zero of type \<^verbatim>\<open>int\<close> and every index, the
  resolved index lies in \<open>[0, size - 1]\<close> under REPLICATE and REFLECT when
  \<open>- size \<le> idx \<le> 2 * size - 1\<close>, and under REFLECT\_101 when
  \<open>- size < idx < 2 * size - 1\<close>; for every size that is not above zero the resolver
  returns 0 in every mode.
\<close>

theorem getMirrorIndex_in_range:
  "int32 sz \<Longrightarrow>
   (0 < sz \<longrightarrow>
      ((borderType = 1 \<or> borderType = 2) \<and> - sz \<le> idx \<and> idx \<le> 2 * sz - 1
        \<or> borderType = 3 \<and> - sz < idx \<and> idx < 2 * sz - 1) \<longrightarrow>
      0 \<le> getMirrorIndex idx sz borderType \<and> getMirrorIndex idx sz borderType \<le> sz - 1)
   \<and> (sz \<le> 0 \<longrightarrow> getMirrorIndex idx sz borderType = 0)"
proof -
  assume sz: "int32 sz"
  have zero: "sz \<le> 0 \<longrightarrow> getMirrorIndex idx sz borderType = 0"
    by (simp add: getMirrorIndex_def)
  have range: "0 \<le> getMirrorIndex idx sz borderType \<and> getMirrorIndex idx sz borderType \<le> sz - 1"
    if pos: "0 < sz"
      and reg: "(borderType = 1 \<or> borderType = 2) \<and> - sz \<le> idx \<and> idx \<le> 2 * sz - 1
        \<or> borderType = 3 \<and> - sz < idx \<and> idx < 2 * sz - 1"
  proof -
    have edge: "sub32 sz 1 = sz - 1"
      using sz pos by (intro sub32_id) (simp add: int32_def)
    have near: "sub32 (neg32 idx) 1 = - idx - 1" if "idx < 0" "- sz \<le> idx"
      using sz that by (intro reflect_near_edge) (simp add: int32_def)
    have far: "sub32 (sub32 (mul32 2 sz) idx) d = 2 * sz - idx - d"
      if "sz \<le> idx" "idx \<le> 2 * sz - d" "0 < d" for d
      using sz that by (intro reflect_far_edge) (simp add: int32_def)
    have neg: "neg32 idx = - idx" if "idx < 0" "- sz < idx"
      using sz that by (intro neg32_id) (simp add: int32_def)
    from reg pos show ?thesis
      by (auto simp: getMirrorIndex_def clamp_def edge near far neg)
  qed
  from zero range show ?thesis by blast
qed

theorem getMirrorIndex_in_range_witness:
  "int32 3 \<and> int32 0
   \<and> 0 \<le> getMirrorIndex (- 2) 3 3 \<and> getMirrorIndex (- 2) 3 3 \<le> 3 - 1
   \<and> 0 \<le> getMirrorIndex 5 3 2 \<and> getMirrorIndex 5 3 2 \<le> 3 - 1
   \<and> getMirrorIndex 7 0 2 = 0"
  using getMirrorIndex_in_range [of 3 3 "- 2"] getMirrorIndex_in_range [of 3 2 5]
    getMirrorIndex_in_range [of 0 2 7]
  by (simp add: int32_def)

section \<open>Padding: the bottom and right borders\<close>

text \<open>
  C2 says that every border cell holds the source cell that its own row and column
  resolve to. The code writes each top border value also into the bottom border, and each
  left border value also into the right border. Under REPLICATE the column \<open>[1, 2]\<close>
  padded by one row gets 1 in its bottom border cell, although the cell's row coordinate 2
  resolves to source row 1, which holds 2.
\<close>

theorem pad2D_bottom_border_replicate:
  "pad2D [[Fin 1], [Fin 2]] 1 0 1 (Fin 0) = Inr [[Fin 1], [Fin 1], [Fin 2], [Fin 1]]
   \<and> getMirrorIndex 2 2 1 = 1
   \<and> getBorderValue [[Fin 1], [Fin 2]] 2 0 2 1 1 (Fin 0) = Inr (Fin 2)"
proof -
  have "pad2D [[Fin 1], [Fin 2]] 1 0 1 (Fin 0) = Inr [[Fin 1], [Fin 1], [Fin 2], [Fin 1]]"
    by code_simp
  moreover have "getMirrorIndex 2 2 1 = 1"
    by code_simp
  moreover have "getBorderValue [[Fin 1], [Fin 2]] 2 0 2 1 1 (Fin 0) = Inr (Fin 2)"
    by code_simp
  ultimately show ?thesis by simp
qed

section \<open>Padding beyond the reach of the resolver\<close>

text \<open>
  The resolver mirrors an index once. \<^verbatim>\<open>pad3D\<close> clamps what it returns for the depth
  axis into the source, \<^verbatim>\<open>std::clamp(src_z, 0, depth - 1)\<close>; \<^verbatim>\<open>getBorderValue\<close>, which
  serves the row and column axes, reads \<^verbatim>\<open>input[r][c]\<close> with the index as returned.

  C10 promises a padded result with mirrored borders for all pad amounts and all border
  types. Under REFLECT a pad of two rows around a source of one row makes the resolver
  return row 1 for row \<open>-2\<close>, and the read of that row is outside the source: the call
  has no defined result.
\<close>

theorem pad2D_reflect_out_of_range:
  "pad2D [[Fin 1]] 2 0 2 (Fin 0) = Inl UndefinedBehaviour
   \<and> getMirrorIndex (- 2) 1 2 = 1
   \<and> getBorderValue [[Fin 1]] (- 2) 0 1 1 2 (Fin 0) = Inl UndefinedBehaviour"
proof -
  have "pad2D [[Fin 1]] 2 0 2 (Fin 0) = Inl UndefinedBehaviour"
    by code_simp
  moreover have "getMirrorIndex (- 2) 1 2 = 1"
    by code_simp
  moreover have "getBorderValue [[Fin 1]] (- 2) 0 1 1 2 (Fin 0) = Inl UndefinedBehaviour"
    by code_simp
  ultimately show ?thesis by simp
qed

text \<open>
  C3 promises that the centre of the padded volume is the source, for all pad vectors and
  all border types. For the volume of the single sample 1 and the pad vector \<open>[2, 0]\<close>
  under REFLECT, \<^verbatim>\<open>pad3D\<close> makes the same read outside the source and returns no
  volume from which a block could be extracted. The same pad on the depth axis, which
  \<^verbatim>\<open>pad3D\<close> clamps, gives five slices with the source in the middle.
\<close>

theorem pad3D_reflect_out_of_range:
  "pad3D [[[Fin 1]]] [2, 0] 2 (Fin 0) = Inl UndefinedBehaviour
   \<and> pad3D [[[Fin 1]]] [0, 0, 2] 2 (Fin 0)
       = Inr [[[Fin 1]], [[Fin 1]], [[Fin 1]], [[Fin 1]], [[Fin 1]]]"
proof -
  have "pad3D [[[Fin 1]]] [2, 0] 2 (Fin 0) = Inl UndefinedBehaviour"
    by code_simp
  moreover have "pad3D [[[Fin 1]]] [0, 0, 2] 2 (Fin 0)
       = Inr [[[Fin 1]], [[Fin 1]], [[Fin 1]], [[Fin 1]], [[Fin 1]]]"
    by code_simp
  ultimately show ?thesis by simp
qed

text \<open>A pad of \<open>2^30\<close> rows makes \<open>rows + 2 * pad_row\<close> leave the range of \<^verbatim>\<open>int\<close>;
  the result vector is then constructed with a negative size.\<close>

lemma pad2D_size_overflow: "pad2D [[Fin 1]] 1073741824 0 1 (Fin 0) = Inl LengthError"
  by code_simp

section \<open>Correlation on concrete rows\<close>

text \<open>
  C5 expects \<open>[2.5, 4, 6, 7.5]\<close> for the row \<open>[2, 4, 6, 8]\<close>, the kernel
  \<open>[0.25, 0.5, 0.25]\<close> and REPLICATE. Along the column axis, and likewise along the
  row axis, the code returns \<open>[2.5, 4, 6, 6]\<close>: the far border cell of the padded line
  is a copy of the near one.
  Along the depth axis, whose padding resolves each border slice by its own coordinate,
  the same samples give the expected output.
\<close>

theorem correlate1d_smoothing_row:
  "correlate1d [[[Fin 2, Fin 4, Fin 6, Fin 8]]] [Fin 0.25, Fin 0.5, Fin 0.25] 1 [] 1 (Fin 0)
     = Inr [[[Fin 2.5, Fin 4, Fin 6, Fin 6]]]
   \<and> correlate1d [[[Fin 2], [Fin 4], [Fin 6], [Fin 8]]] [Fin 0.25, Fin 0.5, Fin 0.25]
        0 [] 1 (Fin 0)
     = Inr [[[Fin 2.5], [Fin 4], [Fin 6], [Fin 6]]]
   \<and> pad3D [[[Fin 2, Fin 4, Fin 6, Fin 8]]] [0, 1, 0] 1 (Fin 0)
     = Inr [[[Fin 2, Fin 2, Fin 4, Fin 6, Fin 8, Fin 2]]]
   \<and> correlate1d [[[Fin 2]], [[Fin 4]], [[Fin 6]], [[Fin 8]]] [Fin 0.25, Fin 0.5, Fin 0.25]
        2 [] 1 (Fin 0)
     = Inr [[[Fin 2.5]], [[Fin 4]], [[Fin 6]], [[Fin 7.5]]]"
proof -
  have "correlate1d [[[Fin 2, Fin 4, Fin 6, Fin 8]]] [Fin 0.25, Fin 0.5, Fin 0.25] 1 [] 1 (Fin 0)
     = Inr [[[Fin 2.5, Fin 4, Fin 6, Fin 6]]]"
    by code_simp
  moreover have "correlate1d [[[Fin 2], [Fin 4], [Fin 6], [Fin 8]]]
        [Fin 0.25, Fin 0.5, Fin 0.25] 0 [] 1 (Fin 0)
     = Inr [[[Fin 2.5], [Fin 4], [Fin 6], [Fin 6]]]"
    by code_simp
  moreover have "pad3D [[[Fin 2, Fin 4, Fin 6, Fin 8]]] [0, 1, 0] 1 (Fin 0)
     = Inr [[[Fin 2, Fin 2, Fin 4, Fin 6, Fin 8, Fin 2]]]"
    by code_simp
  moreover have "correlate1d [[[Fin 2]], [[Fin 4]], [[Fin 6]], [[Fin 8]]]
        [Fin 0.25, Fin 0.5, Fin 0.25] 2 [] 1 (Fin 0)
     = Inr [[[Fin 2.5]], [[Fin 4]], [[Fin 6]], [[Fin 7.5]]]"
    by code_simp
  ultimately show ?thesis by simp
qed

text \<open>
  C4 expects \<open>[0, 0, 10, 10, 0, 0]\<close> for the row \<open>[0, 0, 0, 10, 10, 10]\<close>, the kernel
  \<open>{-1, 0, 1}\<close> and REPLICATE. The code returns \<open>[0, 0, -10, -10, 0, 10]\<close> along the
  column axis and along the row axis: the antisymmetric path multiplies \<open>left - right\<close> by the right-hand
  weight, which negates the weighted sum, and the far border cell of the padded line is
  a copy of the near one. Along the depth axis it returns \<open>[0, 0, -10, -10, 0, 0]\<close>.
\<close>

theorem correlate1d_gradient_row:
  "correlate1d [[[Fin 0, Fin 0, Fin 0, Fin 10, Fin 10, Fin 10]]] [Fin (- 1), Fin 0, Fin 1]
       1 [] 1 (Fin 0)
     = Inr [[[Fin 0, Fin 0, Fin (- 10), Fin (- 10), Fin 0, Fin 10]]]
   \<and> correlate1d [[[Fin 0], [Fin 0], [Fin 0], [Fin 10], [Fin 10], [Fin 10]]]
       [Fin (- 1), Fin 0, Fin 1] 0 [] 1 (Fin 0)
     = Inr [[[Fin 0], [Fin 0], [Fin (- 10)], [Fin (- 10)], [Fin 0], [Fin 10]]]
   \<and> correlate1d [[[Fin 0]], [[Fin 0]], [[Fin 0]], [[Fin 10]], [[Fin 10]], [[Fin 10]]]
       [Fin (- 1), Fin 0, Fin 1] 2 [] 1 (Fin 0)
     = Inr [[[Fin 0]], [[Fin 0]], [[Fin (- 10)]], [[Fin (- 10)]], [[Fin 0]], [[Fin 0]]]"
proof -
  have "correlate1d [[[Fin 0, Fin 0, Fin 0, Fin 10, Fin 10, Fin 10]]]
       [Fin (- 1), Fin 0, Fin 1] 1 [] 1 (Fin 0)
     = Inr [[[Fin 0, Fin 0, Fin (- 10), Fin (- 10), Fin 0, Fin 10]]]"
    by code_simp
  moreover have "correlate1d [[[Fin 0], [Fin 0], [Fin 0], [Fin 10], [Fin 10], [Fin 10]]]
       [Fin (- 1), Fin 0, Fin 1] 0 [] 1 (Fin 0)
     = Inr [[[Fin 0], [Fin 0], [Fin (- 10)], [Fin (- 10)], [Fin 0], [Fin 10]]]"
    by code_simp
  moreover have "correlate1d [[[Fin 0]], [[Fin 0]], [[Fin 0]], [[Fin 10]], [[Fin 10]], [[Fin 10]]]
       [Fin (- 1), Fin 0, Fin 1] 2 [] 1 (Fin 0)
     = Inr [[[Fin 0]], [[Fin 0]], [[Fin (- 10)]], [[Fin (- 10)]], [[Fin 0]], [[Fin 0]]]"
    by code_simp
  ultimately show ?thesis by simp
qed

section \<open>Argument checks\<close>

text \<open>
  C9 says that an empty input or an empty kernel makes \<^verbatim>\<open>correlate1d\<close> and
  \<^verbatim>\<open>sobel\<close> fail with an invalid-argument error, also when the axis is out of range.
  The code returns before it looks at the axis: \<^verbatim>\<open>correlate1d\<close> leaves \<open>output\<close>
  as it was, \<^verbatim>\<open>sobel\<close> returns an empty volume, and neither throws.
\<close>

theorem empty_arguments_return:
  "correlate1d [] weights axis output borderType cval = Inr output
   \<and> correlate1d input [] axis output borderType cval = Inr output
   \<and> sobel [] axis borderType cval = Inr []"
  by (simp add: correlate1d_def correlate1d_with_def sobel_def)

section \<open>The Gaussian of standard deviation zero\<close>

lemma add32_mul32_zero: "add32 (mul32 2 0) 1 = 1" "sub32 0 0 = 0"
  by (simp_all add: add32_def mul32_def sub32_def wrap32_def)

lemma gaussian_kernel1d_sigma_zero: "gaussian_kernel1d (Fin 0) 0 = Inr [NaN]"
  by (simp add: gaussian_kernel1d_def add32_mul32_zero for_range_def ebind_def put1D_def
      zero_double_def round64_def int_to_double_def)

lemma radius_sigma_zero: "double_to_int (Fin 4 * Fin 0 + Fin 0.5) = Inr 0"
  by code_simp

lemma gaussian_filter1d_sigma_zero:
  "gaussian_filter1d input (Fin 0) axis output borderType cval
     = correlate1d input [NaN] axis output borderType cval"
  by (simp only: gaussian_filter1d_def radius_sigma_zero gaussian_kernel1d_sigma_zero ebind_simps
      rev.simps append_Nil)

lemma for_range_0_3: "for_range 0 3 body s = ebind (body 0 s) (\<lambda>s. ebind (body 1 s) (body 2))"
  by (simp add: for_range_def eval_nat_numeral ebind_def split: sum.splits)

text \<open>
  C8 says that \<^verbatim>\<open>gaussian_filter\<close> with \<open>sigma = 0\<close> uses the kernel \<open>[1]\<close> and
  returns its input. The radius is indeed 0, but the only weight is
  \<^verbatim>\<open>exp(-0.5 / 0.0 * 0 * 0)\<close>: the quotient is minus infinity, its product with zero is
  a NaN, and so are the weight, the sum it is normalised by, and every sample of the
  result. For the volume whose single sample is 5:
\<close>

theorem gaussian_filter_sigma_zero:
  "gaussian_kernel1d (Fin 0) 0 = Inr [NaN]
   \<and> gaussian_filter [[[Fin 5]]] (Fin 0) 1 (Fin 0) = Inr [[[NaN]]]"
proof -
  have a0: "correlate1d [[[Fin 5]]] [NaN] 0 [] 1 (Fin 0) = Inr [[[NaN]]]"
    by code_simp
  have a1: "correlate1d [[[NaN]]] [NaN] 1 [] 1 (Fin 0) = Inr [[[NaN]]]"
    by code_simp
  have a2: "correlate1d [[[NaN]]] [NaN] 2 [] 1 (Fin 0) = Inr [[[NaN]]]"
    by code_simp
  have "gaussian_filter [[[Fin 5]]] (Fin 0) 1 (Fin 0) = Inr [[[NaN]]]"
    by (simp add: gaussian_filter_def for_range_0_3 gaussian_filter1d_sigma_zero a0 a1 a2
        ebind_simps)
  with gaussian_kernel1d_sigma_zero show ?thesis by simp
qed

section \<open>Rounding\<close>



lemma binade_bounds:
  assumes "x \<noteq> 0"
  shows "2 powi binade x \<le> \<bar>x\<bar> \<and> \<bar>x\<bar> < 2 powi (binade x + 1)"
proof (cases "1 \<le> \<bar>x\<bar>")
  case True
  define n where "n = \<lfloor>\<bar>x\<bar>\<rfloor>"
  have n: "0 < n" "of_int n \<le> \<bar>x\<bar>" "\<bar>x\<bar> < of_int n + 1"
    using True unfolding n_def by linarith+
  have b: "binade x = bitlen n - 1" using True by (simp add: binade_def n_def)
  have pos: "1 \<le> bitlen n" using n(1) bitlen_eq_zero_iff [of n] bitlen_nonneg [of n] by linarith
  from bitlen_bounds [OF n(1)]
  have lo: "2 ^ nat (bitlen n - 1) \<le> n" and hi: "n + 1 \<le> 2 ^ nat (bitlen n)" by auto
  have "(2::real) powi (bitlen n - 1) = of_int (2 ^ nat (bitlen n - 1))"
    using pos by (simp add: power_int_nonneg_exp)
  also have "\<dots> \<le> of_int n" using lo by (simp only: of_int_le_iff)
  finally have 1: "2 powi binade x \<le> \<bar>x\<bar>" using n(2) b by simp
  have "\<bar>x\<bar> < of_int (n + 1)" using n(3) by simp
  also have "\<dots> \<le> of_int (2 ^ nat (bitlen n))" using hi by (simp only: of_int_le_iff)
  also have "\<dots> = 2 powi (bitlen n)" using pos by (simp add: power_int_nonneg_exp)
  finally have 2: "\<bar>x\<bar> < 2 powi (binade x + 1)" using b by simp
  from 1 2 show ?thesis ..
next
  case False
  define r where "r = 1 / \<bar>x\<bar>"
  define m where "m = \<lceil>r\<rceil> - 1"
  have x: "0 < \<bar>x\<bar>" "\<bar>x\<bar> < 1" using assms False by auto
  then have r: "1 < r" by (simp add: r_def)
  have m: "0 < m" "of_int m < r" "r \<le> of_int m + 1"
    using r unfolding m_def by linarith+
  have b: "binade x = - bitlen m" using False by (simp add: binade_def m_def r_def)
  have pos: "1 \<le> bitlen m" using m(1) bitlen_eq_zero_iff [of m] bitlen_nonneg [of m] by linarith
  from bitlen_bounds [OF m(1)]
  have lo: "2 ^ nat (bitlen m - 1) \<le> m" and hi: "m + 1 \<le> 2 ^ nat (bitlen m)" by auto
  have "r \<le> of_int (m + 1)" using m(3) by simp
  also have "\<dots> \<le> of_int (2 ^ nat (bitlen m))" using hi by (simp only: of_int_le_iff)
  also have "\<dots> = 2 powi (bitlen m)" using pos by (simp add: power_int_nonneg_exp)
  finally have "1 / \<bar>x\<bar> \<le> 2 powi (bitlen m)" by (simp add: r_def)
  then have "1 \<le> 2 powi (bitlen m) * \<bar>x\<bar>" using x(1) by (simp add: field_simps)
  then have 1: "2 powi (- bitlen m) \<le> \<bar>x\<bar>"
    by (simp add: power_int_minus field_simps)
  have "(2::real) powi (bitlen m - 1) = of_int (2 ^ nat (bitlen m - 1))"
    using pos by (simp add: power_int_nonneg_exp)
  also have "\<dots> \<le> of_int m" using lo by (simp only: of_int_le_iff)
  also have "\<dots> < r" by (rule m(2))
  finally have "2 powi (bitlen m - 1) < 1 / \<bar>x\<bar>" by (simp add: r_def)
  moreover have p: "0 < (2::real) powi (bitlen m - 1)" by simp
  ultimately have "\<bar>x\<bar> < inverse (2 powi (bitlen m - 1))"
    using x(1) by (simp add: field_simps)
  moreover have "(2::real) powi (- bitlen m + 1) = inverse (2 powi (bitlen m - 1))"
    using power_int_minus [of "2::real" "bitlen m - 1"] by simp
  ultimately have 2: "\<bar>x\<bar> < 2 powi (- bitlen m + 1)"
    by simp
  from 1 2 b show ?thesis by simp
qed

text \<open>A magnitude below half of the least subnormal rounds to zero.\<close>

lemma round64_underflow:
  assumes "\<bar>x\<bar> < 2 powi (- 1075)"
  shows "round64 x = Fin 0"
proof (cases "x = 0")
  case True
  then show ?thesis by (simp add: round64_def)
next
  case False
  have "2 powi binade x \<le> \<bar>x\<bar>" using binade_bounds [OF False] ..
  with assms have "(2::real) powi binade x < 2 powi (- 1075)" by simp
  then have "binade x < - 1075"
    by (metis not_less power_int_increasing one_le_numeral)
  then have e: "max (binade x) (- 1022) = - 1022" by simp
  define t where "t = x / 2 powi (- 1074)"
  have "(2::real) powi (- 1075) = 2 powi (- 1074) * (1 / 2)"
    using power_int_add [of "2::real" "- 1074" "- 1"] by simp
  then have "\<bar>x\<bar> < 2 powi (- 1074) * (1 / 2)" using assms by simp
  then have t: "\<bar>t\<bar> < 1 / 2"
    unfolding t_def abs_divide by (simp add: field_simps)
  have "round_even t = 0"
  proof (cases "0 \<le> t")
    case True
    then have "\<lfloor>t\<rfloor> = 0" using t by (intro floor_unique) simp_all
    then show ?thesis using t True by (simp add: round_even_def)
  next
    case False
    then have "\<lfloor>t\<rfloor> = - 1" using t by (intro floor_unique) simp_all
    then show ?thesis using t False by (simp add: round_even_def)
  qed
  then show ?thesis
    using False e unfolding round64_def Let_def t_def
    by (simp add: overflow_threshold_def)
qed


section \<open>Fixed-point values\<close>


lemma fixed_point_Fin: "\<bar>n\<bar> \<le> m \<Longrightarrow> fixed_point e m (Fin (of_int n * 2 powi e))"
  by (simp add: fixed_point_def)






section \<open>The paired sum and the full weighted sum\<close>



section \<open>Shape of the padded volume\<close>

lemma shape2D_row: "shape2D nr nc m \<Longrightarrow> a < nr \<Longrightarrow> length (m ! a) = nc"
  by (simp add: shape2D_def)

















section \<open>Samples of the padded volume\<close>















section \<open>The padded volume\<close>


section \<open>The symmetry test\<close>





section \<open>Equivalence of the execution paths\<close>







end
